theory Spec2Isabelle
  imports Complex_Main "HOL-Library.Sublist"
begin

section \<open>JavaScript values\<close>

text \<open>
  A JavaScript binding that may hold \<^verbatim>\<open>undefined\<close>, \<^verbatim>\<open>null\<close> or a proper value.
  React state initialised with \<^verbatim>\<open>useState(null)\<close> starts as \<open>Null\<close>; a property that a
  JSON object does not have reads as \<open>Undefined\<close>.
\<close>

datatype 'a js = Undefined | Null | Val 'a

text \<open>Truthiness of a string-valued binding: the empty string is falsy.\<close>

fun truthy_str :: "string js \<Rightarrow> bool" where
  "truthy_str (Val s) = (s \<noteq> [])"
| "truthy_str Undefined = False"
| "truthy_str Null = False"

text \<open>Truthiness of an object-valued binding: every object is truthy.\<close>

fun truthy_obj :: "'a js \<Rightarrow> bool" where
  "truthy_obj (Val x) = True"
| "truthy_obj Undefined = False"
| "truthy_obj Null = False"

text \<open>A string-valued binding inside a template literal \<^verbatim>\<open>`${x}`\<close>.\<close>

fun template_str :: "string js \<Rightarrow> string" where
  "template_str (Val s) = s"
| "template_str Undefined = ''undefined''"
| "template_str Null = ''null''"

text \<open>Optional chaining \<^verbatim>\<open>x?.f\<close>: \<^verbatim>\<open>undefined\<close> when \<open>x\<close> is nullish.\<close>

fun opt_chain :: "'a js \<Rightarrow> ('a \<Rightarrow> 'b js) \<Rightarrow> 'b js" where
  "opt_chain (Val x) f = f x"
| "opt_chain Undefined f = Undefined"
| "opt_chain Null f = Undefined"

text \<open>
  JSON values, for the fields whose content the client only passes on (metadata values,
  face attributes, fields of a response that the client never reads).
\<close>

datatype json =
  JNull | JBool bool | JNum real | JStr string | JArr "json list" | JObj "(string \<times> json) list"

section \<open>The report as the client reads it\<close>

text \<open>
  The JSON report of a status response. Objects are association lists in the order of
  \<^verbatim>\<open>Object.entries\<close>. A face is given both the contract's field \<open>embedding\<close> and the field
  \<open>embedding_vector\<close> that \<^verbatim>\<open>IdentitySection\<close> reads, a frame both the contract's
  \<open>scene_scores\<close> and the \<open>scene_analysis\<close> that \<^verbatim>\<open>SceneSection\<close> reads; a field that an object
  lacks is \<open>Undefined\<close>. Scores are JavaScript numbers, taken here as exact reals (only
  their order is used, and the sign of \<^verbatim>\<open>b - a\<close> is the order of \<open>a\<close> and \<open>b\<close>).
\<close>

record osint_match =
  platform :: string
  profile_name :: string
  source_url :: string
  similarity_score :: real

record face =
  face_id :: string
  attributes :: "(string \<times> json) list"
  embedding :: "real list js"
  embedding_vector :: "real list js"
  osint_matches :: "osint_match list js"

record scene_analysis_obj =
  classification_scores :: "(string \<times> real) list js"

record frame =
  frame_id :: nat
  scene_scores :: "(string \<times> real) list js"
  faces :: "face list js"
  scene_analysis :: "scene_analysis_obj js"

record report =
  metadata :: "(string \<times> json) list js"
  ocr_text :: "string js"
  frames_analyzed :: "int js"
  frames :: "frame list js"

section \<open>page.js: the Home component\<close>

text \<open>
  The body of a status response, \<^verbatim>\<open>response.data\<close>. \<^verbatim>\<open>fetchStatus\<close> reads \<open>status\<close> and
  \<open>report\<close> only; \<open>failure\<close> is the \<^verbatim>\<open>{stage, message}\<close> pair of a failed job and
  \<open>other_fields\<close> stands for whatever else the body carries.
\<close>

record failure_info =
  stage :: string
  message :: string

record status_data =
  status :: "string js"
  report :: "report js"
  failure :: "failure_info js"
  other_fields :: "(string \<times> json) list"

text \<open>
  What \<^verbatim>\<open>await axios.get(...)\<close> gives: the promise rejects (network error, or a status code
  outside 2xx), or it resolves with a status code and a body.
\<close>

datatype 'd axios_result = Rejected | Resolved nat "'d js"

text \<open>The four \<^verbatim>\<open>useState\<close> cells of \<^verbatim>\<open>Home\<close>.\<close>

record home_state =
  evidenceId :: "string js"
  analysisStatus :: "string js"
  reportData :: "report js"
  isLoadingStatus :: bool

definition initial_state :: home_state where
  "initial_state =
     \<lparr>evidenceId = Null, analysisStatus = Null, reportData = Null, isLoadingStatus = False\<rparr>"

text \<open>
  \<^verbatim>\<open>fetchStatus(id)\<close> is an \<^verbatim>\<open>async\<close> function: it runs up to \<^verbatim>\<open>await axios.get(...)\<close>,
  and its rest runs when the request ends, in whatever state the page is in by then.
  \<open>fetchStatus_issue\<close> is the first part: nothing for a falsy \<open>id\<close>, else
  \<^verbatim>\<open>setIsLoadingStatus(true)\<close> and the request.
\<close>

definition fetchStatus_issue :: "string js \<Rightarrow> home_state \<Rightarrow> home_state" where
  "fetchStatus_issue ident st = (if \<not> truthy_str ident then st else st\<lparr>isLoadingStatus := True\<rparr>)"

text \<open>
  \<open>fetchStatus_answer\<close> is the rest, given the outcome of the request: the \<^verbatim>\<open>try\<close> block after
  the \<^verbatim>\<open>await\<close>, the \<^verbatim>\<open>catch\<close> block and the \<^verbatim>\<open>finally\<close> block. It reads neither \<open>id\<close> nor
  the state. A body that is \<^verbatim>\<open>null\<close> or \<^verbatim>\<open>undefined\<close> makes \<^verbatim>\<open>data.status\<close> throw inside the
  \<^verbatim>\<open>try\<close>, so it ends in the \<^verbatim>\<open>catch\<close> block like a rejection.
\<close>

definition fetchStatus_answer :: "status_data axios_result \<Rightarrow> home_state \<Rightarrow> home_state" where
  "fetchStatus_answer res st =
     (case res of
        Resolved code (Val d) \<Rightarrow>
          (if status d = Val ''ANALYSIS_COMPLETE''
           then st\<lparr>analysisStatus := status d, reportData := report d, isLoadingStatus := False\<rparr>
           else if status d = Val ''FAILED''
           then st\<lparr>analysisStatus := status d, reportData := Null, isLoadingStatus := False\<rparr>
           else st\<lparr>analysisStatus := status d, isLoadingStatus := False\<rparr>)
      | _ \<Rightarrow>
          st\<lparr>analysisStatus := Val ''ERROR'', reportData := Null, isLoadingStatus := False\<rparr>)"

text \<open>
  The condition of the polling effect: while it holds, an interval calls
  \<^verbatim>\<open>fetchStatus(evidenceId)\<close> every \<^verbatim>\<open>POLL_INTERVAL\<close>, whether or not earlier requests have
  ended; when it does not, no interval exists (the effect's cleanup, taken to run with
  the render that follows the change of state, has cleared it).
\<close>

definition polling :: "home_state \<Rightarrow> bool" where
  "polling st \<longleftrightarrow>
     truthy_str (evidenceId st) \<and> analysisStatus st \<noteq> Val ''ANALYSIS_COMPLETE'' \<and>
     analysisStatus st \<noteq> Val ''FAILED'' \<and> analysisStatus st \<noteq> Val ''ERROR''"

definition handleUploadSuccess :: "string js \<Rightarrow> home_state \<Rightarrow> home_state" where
  "handleUploadSuccess ident st =
     st\<lparr>evidenceId := ident, analysisStatus := Val ''PENDING'', reportData := Null\<rparr>"

definition resetAnalysis :: "home_state \<Rightarrow> home_state" where
  "resetAnalysis st =
     st\<lparr>evidenceId := Null, analysisStatus := Null, reportData := Null, isLoadingStatus := False\<rparr>"

text \<open>What \<^verbatim>\<open>StatusIndicator\<close> shows; \<open>None\<close> is its \<^verbatim>\<open>return null\<close>.\<close>

datatype icon = FiCheckCircle | FiXOctagon | FiClock bool

record indicator =
  ind_icon :: icon
  ind_color :: string
  ind_message :: string

definition StatusIndicator :: "home_state \<Rightarrow> indicator option" where
  "StatusIndicator st =
     (if \<not> truthy_str (evidenceId st) then None
      else if analysisStatus st = Val ''ANALYSIS_COMPLETE'' then
        Some \<lparr>ind_icon = FiCheckCircle, ind_color = ''bg-success-green/10 text-success-green'',
              ind_message = ''Analysis Complete. Report Available.''\<rparr>
      else if analysisStatus st = Val ''FAILED'' \<or> analysisStatus st = Val ''ERROR'' then
        Some \<lparr>ind_icon = FiXOctagon, ind_color = ''bg-error-red/10 text-error-red'',
              ind_message = ''Analysis Failed. Check server logs.''\<rparr>
      else
        Some \<lparr>ind_icon = FiClock (isLoadingStatus st), ind_color = ''bg-accent-blue/10 text-accent-blue'',
              ind_message = ''Status: '' @ template_str (analysisStatus st) @ ''... Polling for updates.''\<rparr>)"

text \<open>
  What \<^verbatim>\<open>Home\<close> renders below its title: the upload form, or the status indicator with
  either the \<^verbatim>\<open>ResultsViewer\<close> element (with the props it is given) or the waiting panel
  (which shows the evidence id).
\<close>

datatype main_content = ResultsViewerElem "string js" "report js" | WaitingPanel "string js"

datatype home_view = UploadFormElem | StatusAndResults "indicator option" main_content

definition Home :: "home_state \<Rightarrow> home_view" where
  "Home st =
     (if \<not> truthy_str (evidenceId st) then UploadFormElem
      else StatusAndResults (StatusIndicator st)
        (if analysisStatus st = Val ''ANALYSIS_COMPLETE'' \<and> truthy_obj (reportData st)
         then ResultsViewerElem (evidenceId st) (reportData st)
         else WaitingPanel (evidenceId st)))"


subsection \<open>The page as a transition system\<close>

text \<open>
  A mounted \<^verbatim>\<open>Home\<close> with the number of status requests that have been sent and have not
  ended yet. Nothing in the page cancels a request.
\<close>

record client =
  page :: home_state
  in_flight :: nat

definition initial_client :: client where
  "initial_client = \<lparr>page = initial_state, in_flight = 0\<rparr>"

text \<open>
  What can happen:
  \<^item> \<open>Tick\<close>: the polling interval fires, which it does only while the effect's condition
    holds, and the first part of \<^verbatim>\<open>fetchStatus(evidenceId)\<close> runs: one more request is in
    flight;
  \<^item> \<open>Answer res\<close>: a request in flight ends with the outcome \<open>res\<close> and the rest of its
    \<^verbatim>\<open>fetchStatus\<close> runs, whatever the page holds by then (requests may end in any order,
    and after the status has changed, "Start New" was pressed or another upload was made);
  \<^item> \<open>UploadSuccess id\<close>: the upload form, rendered only while there is no evidence id,
    calls \<^verbatim>\<open>onUploadSuccess(id)\<close>;
  \<^item> \<open>StartNew\<close>: the user presses "Start New" on the status indicator, rendered only while
    there is an evidence id.

  An event that cannot happen in a state leaves the state as it is.
\<close>

datatype event =
  Tick
| Answer "status_data axios_result"
| UploadSuccess "string js"
| StartNew

fun step :: "client \<Rightarrow> event \<Rightarrow> client" where
  "step c Tick =
     (if polling (page c)
      then \<lparr>page = fetchStatus_issue (evidenceId (page c)) (page c), in_flight = Suc (in_flight c)\<rparr>
      else c)"
| "step c (Answer res) =
     (if 0 < in_flight c
      then \<lparr>page = fetchStatus_answer res (page c), in_flight = in_flight c - 1\<rparr>
      else c)"
| "step c (UploadSuccess ident) =
     (if \<not> truthy_str (evidenceId (page c))
      then \<lparr>page = handleUploadSuccess ident (page c), in_flight = in_flight c\<rparr>
      else c)"
| "step c StartNew =
     (if truthy_str (evidenceId (page c))
      then \<lparr>page = resetAnalysis (page c), in_flight = in_flight c\<rparr>
      else c)"

definition run :: "client \<Rightarrow> event list \<Rightarrow> client" where
  "run c evs = foldl step c evs"

text \<open>
  The status requests that a sequence of events issues: for each, the evidence id it asks
  about and the status the page held when the interval fired.
\<close>

fun polls :: "client \<Rightarrow> event list \<Rightarrow> (string js \<times> string js) list" where
  "polls c [] = []"
| "polls c (ev # evs) =
     (if ev = Tick \<and> polling (page c)
      then [(evidenceId (page c), analysisStatus (page c))] else []) @ polls (step c ev) evs"

text \<open>The statuses at which the client stops: the condition of the effect, negated.\<close>

definition client_terminal :: "string js \<Rightarrow> bool" where
  "client_terminal s \<longleftrightarrow> s = Val ''ANALYSIS_COMPLETE'' \<or> s = Val ''FAILED'' \<or> s = Val ''ERROR''"

section \<open>ResultsViewer.jsx\<close>

subsection \<open>MetadataSection\<close>

definition is_lower :: "char \<Rightarrow> bool" where
  "is_lower c \<longleftrightarrow> (97::nat) \<le> of_char c \<and> of_char c \<le> (122::nat)"

definition is_upper :: "char \<Rightarrow> bool" where
  "is_upper c \<longleftrightarrow> (65::nat) \<le> of_char c \<and> of_char c \<le> (90::nat)"

text \<open>
  \<^verbatim>\<open>key.replace(/([a-z])([A-Z])/g, '$1 $2')\<close>: a space between every lower-case letter and the
  upper-case letter that follows it. The scan goes on after the two letters of a match.
\<close>

fun camel_spaces :: "string \<Rightarrow> string" where
  "camel_spaces (a # b # cs) =
     (if is_lower a \<and> is_upper b then a # CHR '' '' # b # camel_spaces cs
      else a # camel_spaces (b # cs))"
| "camel_spaces cs = cs"

text \<open>\<^verbatim>\<open>s.includes(p)\<close>.\<close>

fun js_includes :: "string \<Rightarrow> string \<Rightarrow> bool" where
  "js_includes [] p = (p = [])"
| "js_includes (c # cs) p = (prefix p (c # cs) \<or> js_includes cs p)"

text \<open>
  The text shown for a metadata value: \<^verbatim>\<open>JSON.stringify(value)\<close> when \<^verbatim>\<open>typeof value\<close> is
  \<^verbatim>\<open>'object'\<close> (objects, arrays and \<^verbatim>\<open>null\<close>), \<^verbatim>\<open>String(value)\<close> otherwise. The two built-ins
  are not unfolded: the view records which one is applied to which value.
\<close>

datatype shown_value = JSON_stringify json | String_of json

fun typeof_object :: "json \<Rightarrow> bool" where
  "typeof_object JNull = True"
| "typeof_object (JArr xs) = True"
| "typeof_object (JObj kvs) = True"
| "typeof_object (JBool b) = False"
| "typeof_object (JNum x) = False"
| "typeof_object (JStr s) = False"

record metadata_item =
  item_key :: string
  item_shown :: shown_value

text \<open>
  The object that \<^verbatim>\<open>ResultsViewer\<close> builds from its props and hands to the sections
  (\<^verbatim>\<open>mockFullReport\<close>).
\<close>

record full_report =
  fr_evidenceId :: "string js"
  fr_metadata :: "(string \<times> json) list js"
  fr_ocr_text :: "string js"
  fr_frames_analyzed :: "int js"
  fr_faces :: "face list js"
  fr_frames :: "frame list js"

record metadata_view =
  key_metadata :: "metadata_item list"
  ocr_shown :: string
  ocr_empty_note :: bool
  full_dump :: "(string \<times> json) list"

text \<open>
  \<^verbatim>\<open>String.prototype.toUpperCase\<close> is a built-in of the JavaScript engine (it follows the
  Unicode case mappings) and is taken as the parameter \<open>toUpperCase\<close> of the definitions that
  call it.
\<close>

definition metadataDisplay :: "(string \<Rightarrow> string) \<Rightarrow> (string \<times> json) list \<Rightarrow> metadata_item list" where
  "metadataDisplay toUpperCase md =
     map (\<lambda>(k, v). \<lparr>item_key = toUpperCase (camel_spaces k),
                     item_shown = (if typeof_object v then JSON_stringify v else String_of v)\<rparr>) md"

definition keyMetadata :: "(string \<Rightarrow> string) \<Rightarrow> (string \<times> json) list \<Rightarrow> metadata_item list" where
  "keyMetadata toUpperCase md =
     take 5 (filter (\<lambda>item. js_includes (item_key item) ''GPS'' \<or> js_includes (item_key item) ''DATE'' \<or>
                            js_includes (item_key item) ''MODEL'') (metadataDisplay toUpperCase md))"

definition MetadataSection :: "(string \<Rightarrow> string) \<Rightarrow> full_report js \<Rightarrow> metadata_view" where
  "MetadataSection toUpperCase rep =
     (let md = (case opt_chain rep fr_metadata of Val m \<Rightarrow> m | _ \<Rightarrow> []);
          ocrText = (case opt_chain rep fr_ocr_text of
                       Val t \<Rightarrow> (if t = [] then ''No text extracted.'' else t)
                     | _ \<Rightarrow> ''No text extracted.'')
      in \<lparr>key_metadata = keyMetadata toUpperCase md, ocr_shown = ocrText,
           ocr_empty_note = (ocrText = ''No text extracted.''), full_dump = md\<rparr>)"

subsection \<open>SceneSection\<close>

definition placeholder_scores :: "(string \<times> real) list" where
  "placeholder_scores =
     [(''Urban Street'', 0.85), (''Residential Area'', 0.10), (''Industrial Complex'', 0.05)]"

text \<open>\<^verbatim>\<open>frames?.[0]\<close>.\<close>

fun first_frame :: "frame list js \<Rightarrow> frame js" where
  "first_frame (Val (f # fs)) = Val f"
| "first_frame (Val []) = Undefined"
| "first_frame Undefined = Undefined"
| "first_frame Null = Undefined"

text \<open>
  The rows of the scene card: \<^verbatim>\<open>Object.entries(sceneScores).sort(([, a], [, b]) => b - a)\<close>, a
  stable sort by descending score. Each row shows the label and the score as a percentage.
\<close>

definition SceneSection :: "frame list js \<Rightarrow> full_report js \<Rightarrow> (string \<times> real) list" where
  "SceneSection frs rep =
     (let sceneScores =
            (case opt_chain (opt_chain (first_frame frs) scene_analysis) classification_scores of
               Val sc \<Rightarrow> sc
             | _ \<Rightarrow> placeholder_scores)
      in sort_key (\<lambda>(scene, score). - score) sceneScores)"

subsection \<open>IdentitySection\<close>

definition placeholder_faces :: "face list" where
  "placeholder_faces =
     [\<lparr>face_id = ''face-a'',
       attributes = [(''gender'', JStr ''Male''), (''age'', JNum 35), (''emotion'', JStr ''Neutral'')],
       embedding = Undefined, embedding_vector = Undefined,
       osint_matches = Val
         [\<lparr>platform = ''Twitter'', profile_name = ''John Doe'', source_url = ''#'',
            similarity_score = 0.92\<rparr>,
          \<lparr>platform = ''Public Web'', profile_name = ''J. Doe Blog'', source_url = ''#'',
            similarity_score = 0.85\<rparr>]\<rparr>,
      \<lparr>face_id = ''face-b'',
       attributes = [(''gender'', JStr ''Female''), (''age'', JNum 28), (''emotion'', JStr ''Happy'')],
       embedding = Undefined, embedding_vector = Undefined,
       osint_matches = Val []\<rparr>]"

record match_row =
  row_index :: nat
  row_profile_name :: string
  row_platform :: string
  row_source_url :: string
  row_score :: real

text \<open>
  One card per face. \<open>card_matches\<close> is \<open>None\<close> where the card shows "No OSINT matches found
  above threshold for this face." in place of the rows.
\<close>

record face_card =
  card_key :: string
  card_number :: nat
  card_attributes :: "(string \<times> json) list"
  card_embedding_head :: "real list js"
  card_dimensions :: nat
  card_match_count :: nat
  card_matches :: "match_row list option"

definition match_rows :: "osint_match list \<Rightarrow> match_row list" where
  "match_rows ms =
     map (\<lambda>(matchIndex, m). \<lparr>row_index = matchIndex, row_profile_name = profile_name m,
            row_platform = platform m, row_source_url = source_url m,
            row_score = similarity_score m\<rparr>) (enumerate 0 ms)"

definition face_card_of :: "nat \<Rightarrow> face \<Rightarrow> face_card" where
  "face_card_of index f =
     \<lparr>card_key = face_id f,
      card_number = index + 1,
      card_attributes = attributes f,
      card_embedding_head = (case embedding_vector f of Val v \<Rightarrow> Val (take 5 v) | _ \<Rightarrow> Undefined),
      card_dimensions = (case embedding_vector f of
                           Val v \<Rightarrow> (if length v = 0 then 512 else length v)
                         | _ \<Rightarrow> 512),
      card_match_count = (case osint_matches f of Val ms \<Rightarrow> length ms | _ \<Rightarrow> 0),
      card_matches = (case osint_matches f of
                        Val ms \<Rightarrow> (if length ms > 0 then Some (match_rows ms) else None)
                      | _ \<Rightarrow> None)\<rparr>"

record identity_view =
  face_count :: nat
  face_cards :: "face_card list"

definition IdentitySection :: "face list js \<Rightarrow> identity_view" where
  "IdentitySection fs =
     (let mockFaces = (case fs of Val xs \<Rightarrow> xs | _ \<Rightarrow> placeholder_faces)
      in \<lparr>face_count = length mockFaces,
           face_cards = map (\<lambda>(index, f). face_card_of index f) (enumerate 0 mockFaces)\<rparr>)"

subsection \<open>ResultsViewer\<close>

text \<open>
  The tab ids \<^verbatim>\<open>'identity'\<close>, \<^verbatim>\<open>'metadata'\<close> and \<^verbatim>\<open>'scene'\<close>; \<^verbatim>\<open>activeTab\<close> starts as
  \<^verbatim>\<open>'identity'\<close> and is only ever set to the id of a tab.
\<close>

datatype tab = IdentityTab | MetadataTab | SceneTab

datatype tab_content =
  IdentityContent identity_view
| MetadataContent metadata_view
| SceneContent "(string \<times> real) list"

record results_view =
  rv_title_id :: "string js"
  rv_frames_analyzed :: "int js"
  rv_active :: tab
  rv_content :: tab_content

definition mockFullReport :: "string js \<Rightarrow> report js \<Rightarrow> full_report" where
  "mockFullReport evidence reportDat =
     \<lparr>fr_evidenceId = evidence,
      fr_metadata = opt_chain reportDat metadata,
      fr_ocr_text = opt_chain reportDat ocr_text,
      fr_frames_analyzed = opt_chain reportDat frames_analyzed,
      fr_faces = Null,
      fr_frames = Val [\<lparr>frame_id = 1, scene_scores = Undefined, faces = Undefined,
        scene_analysis = Val \<lparr>classification_scores = Val placeholder_scores\<rparr>\<rparr>]\<rparr>"

definition ResultsViewer ::
  "(string \<Rightarrow> string) \<Rightarrow> string js \<Rightarrow> report js \<Rightarrow> tab \<Rightarrow> results_view" where
  "ResultsViewer toUpperCase evidence reportDat activeTab =
     (let full = mockFullReport evidence reportDat
      in \<lparr>rv_title_id = evidence,
           rv_frames_analyzed = fr_frames_analyzed full,
           rv_active = activeTab,
           rv_content =
             (case activeTab of
                IdentityTab \<Rightarrow> IdentityContent (IdentitySection (fr_faces full))
              | MetadataTab \<Rightarrow> MetadataContent (MetadataSection toUpperCase (Val full))
              | SceneTab \<Rightarrow> SceneContent (SceneSection (fr_frames full) (Val full)))\<rparr>)"

text \<open>What a view shows of faces, matches and scene scores.\<close>

definition card_scores :: "face_card \<Rightarrow> real list" where
  "card_scores c = (case card_matches c of None \<Rightarrow> [] | Some rows \<Rightarrow> map row_score rows)"

fun shown_cards :: "tab_content \<Rightarrow> face_card list" where
  "shown_cards (IdentityContent v) = face_cards v"
| "shown_cards (MetadataContent v) = []"
| "shown_cards (SceneContent v) = []"

fun shown_scene :: "tab_content \<Rightarrow> (string \<times> real) list" where
  "shown_scene (SceneContent v) = v"
| "shown_scene (IdentityContent v) = []"
| "shown_scene (MetadataContent v) = []"

text \<open>The faces that a report contains, frame by frame.\<close>

definition report_faces :: "report \<Rightarrow> face list" where
  "report_faces r =
     (case frames r of
        Val frs \<Rightarrow> concat (map (\<lambda>fr. case faces fr of Val fs \<Rightarrow> fs | _ \<Rightarrow> []) frs)
      | _ \<Rightarrow> [])"

definition sorted_desc :: "real list \<Rightarrow> bool" where
  "sorted_desc xs \<longleftrightarrow> sorted_wrt (\<lambda>a b. a \<ge> b) xs"

definition face_scores :: "face \<Rightarrow> real list" where
  "face_scores f = (case osint_matches f of Val ms \<Rightarrow> map similarity_score ms | _ \<Rightarrow> [])"

text \<open>The scene scores that a report contains: those of its first frame.\<close>

definition report_scene_scores :: "report \<Rightarrow> (string \<times> real) list" where
  "report_scene_scores r =
     (case opt_chain (first_frame (frames r)) scene_scores of Val sc \<Rightarrow> sc | _ \<Rightarrow> [])"

section \<open>UploadForm.jsx\<close>

text \<open>A \<^verbatim>\<open>File\<close> chosen in the file input: its name, its MIME type and its bytes.\<close>

record file_obj =
  file_name :: string
  file_type :: string
  file_bytes :: "nat list"

datatype form_value = FileValue file_obj | TextValue string

text \<open>The request that \<^verbatim>\<open>axios.post\<close> sends: the path below \<^verbatim>\<open>API_BASE_URL\<close>, the headers
  given in the call, and the \<^verbatim>\<open>FormData\<close> as the list of its entries.\<close>

record post_request =
  req_path :: string
  req_headers :: "(string \<times> string) list"
  req_form :: "(string \<times> form_value) list"

text \<open>The body of the upload response (taken to be a JSON object) and a rejection's error:
  \<open>err_response_message\<close> is \<^verbatim>\<open>error.response?.data?.message\<close>.\<close>

record upload_data =
  evidence_id :: "string js"
  api_message :: "string js"

record axios_error =
  err_response_message :: "string js"
  err_message :: "string js"

datatype post_result = PostRejected axios_error | PostResolved nat upload_data

text \<open>The \<^verbatim>\<open>useState\<close> cells of \<^verbatim>\<open>UploadForm\<close>.\<close>

record upload_state =
  uf_file :: "file_obj js"
  uf_isUploading :: bool
  uf_message :: string
  uf_status :: "string js"

text \<open>\<^verbatim>\<open>a || b\<close> on string-valued bindings.\<close>

definition js_or :: "string js \<Rightarrow> string js \<Rightarrow> string js" where
  "js_or a b = (if truthy_str a then a else b)"

text \<open>The request that \<^verbatim>\<open>handleUpload\<close> sends for the selected file.\<close>

definition upload_request :: "file_obj \<Rightarrow> post_request" where
  "upload_request f =
     \<lparr>req_path = ''/upload'',
      req_headers = [(''Content-Type'', ''multipart/form-data'')],
      req_form = [(''file'', FileValue f)]\<rparr>"

text \<open>
  What one run of \<^verbatim>\<open>handleUpload\<close> does, given the outcome of its request (read only when
  a request is sent): the request it sends if any, the argument of its call of
  \<^verbatim>\<open>onUploadSuccess\<close> if any, and the form's state at its end.
\<close>

record upload_run =
  sent :: "post_request option"
  success_call :: "string js option"
  form_after :: upload_state

definition handleUpload :: "upload_state \<Rightarrow> post_result \<Rightarrow> upload_run" where
  "handleUpload st res =
     (case uf_file st of
        Val f \<Rightarrow>
          (case res of
             PostResolved code d \<Rightarrow>
               (if code = 202 then
                  \<lparr>sent = Some (upload_request f), success_call = Some (evidence_id d),
                   form_after = \<lparr>uf_file = Null, uf_isUploading = False,
                     uf_message = ''Success! Analysis job queued. Evidence ID: '' @ template_str (evidence_id d),
                     uf_status = Val ''success''\<rparr>\<rparr>
                else
                  \<lparr>sent = Some (upload_request f), success_call = None,
                   form_after = \<lparr>uf_file = Null, uf_isUploading = False,
                     uf_message = ''Upload failed: '' @ template_str
                       (js_or (js_or (api_message d) (Val ''Unknown API response.''))
                          (Val ''A network error occurred.'')),
                     uf_status = Val ''error''\<rparr>\<rparr>)
           | PostRejected err \<Rightarrow>
               \<lparr>sent = Some (upload_request f), success_call = None,
                form_after = \<lparr>uf_file = Null, uf_isUploading = False,
                  uf_message = ''Upload failed: '' @ template_str
                    (js_or (js_or (err_response_message err) (err_message err))
                       (Val ''A network error occurred.'')),
                  uf_status = Val ''error''\<rparr>\<rparr>)
      | _ \<Rightarrow>
          \<lparr>sent = None, success_call = None,
           form_after = st\<lparr>uf_message := ''Please select an evidence file first.'',
             uf_status := Val ''error''\<rparr>\<rparr>)"

text \<open>The page after a run of \<^verbatim>\<open>handleUpload\<close>: \<^verbatim>\<open>onUploadSuccess\<close> is \<^verbatim>\<open>handleUploadSuccess\<close>.\<close>

definition page_after_upload :: "upload_run \<Rightarrow> home_state \<Rightarrow> home_state" where
  "page_after_upload u st =
     (case success_call u of None \<Rightarrow> st | Some ident \<Rightarrow> handleUploadSuccess ident st)"

section \<open>The job state machine of the analysis pipeline\<close>

text \<open>
  The pipeline (orchestrator, job registry, stage executors, report projection) is server
  code that is not among the source files; the definitions of this section follow the
  specification's sections 3 to 7.
\<close>

text \<open>Modelled from the spec: the status values of section 4.2 (the server's status type is
  missing).\<close>

datatype job_status =
  PENDING | METADATA_EXTRACTED | FRAMES_EXTRACTED | CONTENT_ANALYZED | ANALYSIS_COMPLETE | FAILED

text \<open>Modelled from the spec: the forward order of section 4.2, "PENDING, then
  METADATA_EXTRACTED, then FRAMES_EXTRACTED, then CONTENT_ANALYZED, then ANALYSIS_COMPLETE";
  the successor function is missing.\<close>

fun next_status :: "job_status \<Rightarrow> job_status option" where
  "next_status PENDING = Some METADATA_EXTRACTED"
| "next_status METADATA_EXTRACTED = Some FRAMES_EXTRACTED"
| "next_status FRAMES_EXTRACTED = Some CONTENT_ANALYZED"
| "next_status CONTENT_ANALYZED = Some ANALYSIS_COMPLETE"
| "next_status ANALYSIS_COMPLETE = None"
| "next_status FAILED = None"

text \<open>Modelled from the spec: the position of a status in the forward order (missing).\<close>

fun status_rank :: "job_status \<Rightarrow> nat" where
  "status_rank PENDING = 0"
| "status_rank METADATA_EXTRACTED = 1"
| "status_rank FRAMES_EXTRACTED = 2"
| "status_rank CONTENT_ANALYZED = 3"
| "status_rank ANALYSIS_COMPLETE = 4"
| "status_rank FAILED = 5"

text \<open>Modelled from the spec: "There is no state beyond ANALYSIS_COMPLETE or FAILED (both
  terminal)" (the predicate is missing).\<close>

definition terminal :: "job_status \<Rightarrow> bool" where
  "terminal s \<longleftrightarrow> s = ANALYSIS_COMPLETE \<or> s = FAILED"

text \<open>Modelled from the spec: the status strings of the status response (the encoder is
  missing).\<close>

fun status_name :: "job_status \<Rightarrow> string" where
  "status_name PENDING = ''PENDING''"
| "status_name METADATA_EXTRACTED = ''METADATA_EXTRACTED''"
| "status_name FRAMES_EXTRACTED = ''FRAMES_EXTRACTED''"
| "status_name CONTENT_ANALYZED = ''CONTENT_ANALYZED''"
| "status_name ANALYSIS_COMPLETE = ''ANALYSIS_COMPLETE''"
| "status_name FAILED = ''FAILED''"

text \<open>Modelled from the spec: the data model of section 3 (Face, Frame, Job Record); the
  server's types are missing. \<open>stage_results\<close> maps a stage name to its output, here the
  metadata object or the OCR texts of the frames in frame order.\<close>

datatype osint_state = Osint_pending | Osint_done | Osint_partial_failure

record job_face =
  jf_face_id :: string
  jf_attributes :: "(string \<times> json) list"
  jf_embedding :: "real list"
  jf_osint_matches :: "osint_match list"
  jf_osint_status :: osint_state

record job_frame =
  jfr_frame_id :: nat
  jfr_image_ref :: string
  jfr_scene_scores :: "(string \<times> real) list option"
  jfr_faces :: "job_face list"

datatype stage_output = MetadataOutput "(string \<times> json) list" | OcrOutput "string list"

record job_record =
  jr_evidence_id :: string
  jr_status :: job_status
  jr_stage_results :: "(string \<times> stage_output) list"
  jr_frames :: "job_frame list"
  jr_error :: "failure_info option"
  jr_created_at :: nat
  jr_updated_at :: nat

subsection \<open>Job Registry\<close>

datatype registry_error = AlreadyExists | NotFound | StaleWrite

type_synonym registry = "string \<Rightarrow> job_record option"

text \<open>Modelled from the spec: section 4.1, "create(evidence_id) (fails AlreadyExists if a
  record exists for that id)", with the record "in PENDING" of section 2 (the registry is
  missing).\<close>

definition create :: "registry \<Rightarrow> string \<Rightarrow> nat \<Rightarrow> registry_error + registry \<times> job_record" where
  "create reg eid now =
     (case reg eid of
        Some r \<Rightarrow> Inl AlreadyExists
      | None \<Rightarrow>
          (let r = \<lparr>jr_evidence_id = eid, jr_status = PENDING, jr_stage_results = [],
                    jr_frames = [], jr_error = None, jr_created_at = now, jr_updated_at = now\<rparr>
           in Inr (reg(eid \<mapsto> r), r)))"

text \<open>Modelled from the spec: section 4.1, "get(evidence_id) (fails NotFound)" (missing).\<close>

definition get_job :: "registry \<Rightarrow> string \<Rightarrow> registry_error + job_record" where
  "get_job reg eid = (case reg eid of None \<Rightarrow> Inl NotFound | Some r \<Rightarrow> Inr r)"

text \<open>Modelled from the spec: the two writes that the orchestrator asks of the registry: a
  stage's completion, with the mutation of "the record's mutable fields" (the stage results
  and the frames), and the failure of section 4.2 "to FAILED with {stage, message}"
  (missing).\<close>

datatype transition = Forward "job_record \<Rightarrow> job_record" | Fail failure_info

text \<open>Modelled from the spec: section 4.1, compare_and_advance "atomically applies mutation
  to the record's mutable fields and advances status to the next value iff the record's
  current status equals expected_status; otherwise fails StaleWrite". A terminal status has
  no next value (section 5: against a terminal expected status the call "is meaningless"),
  so nothing is written for one. The registry is missing.\<close>

definition compare_and_advance ::
  "registry \<Rightarrow> string \<Rightarrow> job_status \<Rightarrow> transition \<Rightarrow> nat \<Rightarrow> registry_error + registry \<times> job_record" where
  "compare_and_advance reg eid expected_status tr now =
     (case reg eid of
        None \<Rightarrow> Inl NotFound
      | Some r \<Rightarrow>
          (if jr_status r \<noteq> expected_status then Inl StaleWrite
           else case tr of
             Forward mutation \<Rightarrow>
               (case next_status expected_status of
                  None \<Rightarrow> Inl StaleWrite
                | Some s \<Rightarrow>
                    (let r' = r\<lparr>jr_stage_results := jr_stage_results (mutation r),
                                 jr_frames := jr_frames (mutation r),
                                 jr_status := s, jr_updated_at := now\<rparr>
                     in Inr (reg(eid \<mapsto> r'), r')))
           | Fail info \<Rightarrow>
               (if terminal expected_status then Inl StaleWrite
                else (let r' = r\<lparr>jr_status := FAILED, jr_error := Some info, jr_updated_at := now\<rparr>
                      in Inr (reg(eid \<mapsto> r'), r')))))"

text \<open>Modelled from the spec: what the orchestrator and its stage units may ask of the
  registry, in any order and with any arguments: section 5, "the Job Record is only ever
  mutated via the registry's atomic compare-and-advance primitive", and against a terminal
  expected status "the Orchestrator skips the write instead of erroring"; a failed call
  leaves the registry as it is. The orchestrator is missing.\<close>

datatype registry_op =
  Create string nat
| Write string job_status transition nat

definition apply_op :: "registry \<Rightarrow> registry_op \<Rightarrow> registry" where
  "apply_op reg op =
     (case op of
        Create eid now \<Rightarrow> (case create reg eid now of Inl e \<Rightarrow> reg | Inr (reg', r) \<Rightarrow> reg')
      | Write eid expected_status tr now \<Rightarrow>
          (if terminal expected_status then reg
           else case compare_and_advance reg eid expected_status tr now of
                  Inl e \<Rightarrow> reg
                | Inr (reg', r) \<Rightarrow> reg'))"

text \<open>Modelled from the spec: the invariant of section 3 as a relation between an earlier and
  a later status of one job: the same status, or from a non-terminal status forward in the
  order or to FAILED.\<close>

definition never_regresses :: "job_status \<Rightarrow> job_status \<Rightarrow> bool" where
  "never_regresses s s' \<longleftrightarrow>
     s' = s \<or> (\<not> terminal s \<and> (s' = FAILED \<or> status_rank s < status_rank s'))"

subsection \<open>Report Projection and status query\<close>

text \<open>Modelled from the spec: section 4.4, the report shape of section 6 from a job record,
  "with osint_matches sorted by score desc" and the "OCR text from all frames concatenated
  in frame order" (the projection is missing). The sort is stable.\<close>

definition project_face :: "job_face \<Rightarrow> face" where
  "project_face f =
     \<lparr>face_id = jf_face_id f, attributes = jf_attributes f, embedding = Val (jf_embedding f),
      embedding_vector = Undefined,
      osint_matches = Val (sort_key (\<lambda>m. - similarity_score m) (jf_osint_matches f))\<rparr>"

definition project_frame :: "job_frame \<Rightarrow> frame" where
  "project_frame fr =
     \<lparr>frame_id = jfr_frame_id fr,
      scene_scores = (case jfr_scene_scores fr of Some sc \<Rightarrow> Val sc | None \<Rightarrow> Undefined),
      faces = Val (map project_face (jfr_faces fr)),
      scene_analysis = Undefined\<rparr>"

definition project_report :: "job_record \<Rightarrow> report" where
  "project_report r =
     \<lparr>metadata = (case map_of (jr_stage_results r) ''metadata'' of
                    Some (MetadataOutput md) \<Rightarrow> Val md | _ \<Rightarrow> Undefined),
      ocr_text = (case map_of (jr_stage_results r) ''ocr'' of
                    Some (OcrOutput texts) \<Rightarrow> Val (concat texts) | _ \<Rightarrow> Undefined),
      frames_analyzed = Val (int (length (jr_frames r))),
      frames = Val (map project_frame (jr_frames r))\<rparr>"

text \<open>Modelled from the spec: section 6, "GET status(evidence_id) -> {status,
  frames_analyzed, report?}: report present only when status = ANALYSIS_COMPLETE; FAILED
  additionally surfaces a stage/message pair" (the endpoint is missing).\<close>

definition status_query :: "job_record \<Rightarrow> status_data" where
  "status_query r =
     \<lparr>status = Val (status_name (jr_status r)),
      report = (if jr_status r = ANALYSIS_COMPLETE then Val (project_report r) else Undefined),
      failure = (if jr_status r = FAILED
                 then (case jr_error r of Some info \<Rightarrow> Val info | None \<Rightarrow> Undefined)
                 else Undefined),
      other_fields = [(''frames_analyzed'', JNum (real (length (jr_frames r))))]\<rparr>"

subsection \<open>OSINT correlation\<close>

text \<open>Modelled from the spec: the OSINT Query Provider of section 2, "given a face
  embedding, returns zero or more ranked candidate matches; network-bound, rate-limited,
  fallible": the answer to the attempt with a given number for a given embedding (a timeout
  is a failed attempt). The provider is external.\<close>

datatype osint_error = OsintLookupError

type_synonym osint_provider = "real list \<Rightarrow> nat \<Rightarrow> osint_error + osint_match list"

text \<open>Modelled from the spec: section 5, "bounded (e.g., 3 attempts) exponential backoff
  per face": up to \<open>budget\<close> further attempts, numbered from \<open>k\<close>; \<open>None\<close> when the budget is
  exhausted. The waiting between attempts is not modelled. The retry wrapper is missing.\<close>

fun osint_retry :: "osint_provider \<Rightarrow> real list \<Rightarrow> nat \<Rightarrow> nat \<Rightarrow> osint_match list option" where
  "osint_retry provider emb 0 k = None"
| "osint_retry provider emb (Suc budget) k =
     (case provider emb k of
        Inr ms \<Rightarrow> Some ms
      | Inl e \<Rightarrow> osint_retry provider emb budget (Suc k))"

text \<open>Modelled from the spec: section 4.2, a face's correlation unit ends as done, or, when
  its lookup errors, "is recorded with osint_status = partial_failure and an empty match
  list" (missing).\<close>

definition correlate_face :: "osint_provider \<Rightarrow> nat \<Rightarrow> job_face \<Rightarrow> job_face" where
  "correlate_face provider attempts f =
     (case osint_retry provider (jf_embedding f) attempts 0 of
        Some ms \<Rightarrow> f\<lparr>jf_osint_matches := ms, jf_osint_status := Osint_done\<rparr>
      | None \<Rightarrow> f\<lparr>jf_osint_matches := [], jf_osint_status := Osint_partial_failure\<rparr>)"

definition correlate_frame :: "osint_provider \<Rightarrow> nat \<Rightarrow> job_frame \<Rightarrow> job_frame" where
  "correlate_frame provider attempts fr =
     fr\<lparr>jfr_faces := map (correlate_face provider attempts) (jfr_faces fr)\<rparr>"

text \<open>Modelled from the spec: section 4.2, the second fan-in barrier: once every face's
  unit has ended, the record advances from CONTENT_ANALYZED to ANALYSIS_COMPLETE (the units
  are run one after the other here; the orchestrator is missing).\<close>

definition osint_stage ::
  "registry \<Rightarrow> string \<Rightarrow> osint_provider \<Rightarrow> nat \<Rightarrow> nat \<Rightarrow> registry_error + registry \<times> job_record" where
  "osint_stage reg eid provider attempts now =
     compare_and_advance reg eid CONTENT_ANALYZED
       (Forward (\<lambda>r. r\<lparr>jr_frames := map (correlate_frame provider attempts) (jr_frames r)\<rparr>)) now"

section \<open>Example data\<close>

text \<open>A job at the second barrier, with two frames and a face in each, and an OSINT provider
  that fails for the first face's embedding at every attempt.\<close>

definition example_job :: job_record where
  "example_job =
     \<lparr>jr_evidence_id = ''ev-1'', jr_status = CONTENT_ANALYZED,
      jr_stage_results = [(''metadata'', MetadataOutput [(''cameraModel'', JStr ''X100'')]),
                          (''ocr'', OcrOutput [''EXIT'', '' 12''])],
      jr_frames =
        [\<lparr>jfr_frame_id = 1, jfr_image_ref = ''frame-1'', jfr_scene_scores = Some [(''Beach'', 0.7)],
          jfr_faces =
            [\<lparr>jf_face_id = ''face-1'', jf_attributes = [], jf_embedding = [1],
               jf_osint_matches =
                 [\<lparr>platform = ''Web'', profile_name = ''A'', source_url = ''u1'', similarity_score = 0.85\<rparr>,
                  \<lparr>platform = ''Web'', profile_name = ''B'', source_url = ''u2'', similarity_score = 0.92\<rparr>],
               jf_osint_status = Osint_pending\<rparr>]\<rparr>,
         \<lparr>jfr_frame_id = 2, jfr_image_ref = ''frame-2'', jfr_scene_scores = Some [(''Street'', 0.6)],
          jfr_faces =
            [\<lparr>jf_face_id = ''face-2'', jf_attributes = [], jf_embedding = [2],
               jf_osint_matches = [], jf_osint_status = Osint_pending\<rparr>]\<rparr>],
      jr_error = None, jr_created_at = 0, jr_updated_at = 4\<rparr>"

definition example_provider :: osint_provider where
  "example_provider emb k =
     (if emb = [1] then Inl OsintLookupError
      else Inr [\<lparr>platform = ''Web'', profile_name = ''C'', source_url = ''u3'', similarity_score = 0.5\<rparr>])"

text \<open>A report with one frame, one face and one match, and a file to upload.\<close>

definition example_report :: report where
  "example_report =
     \<lparr>metadata = Val [(''gpsLatitude'', JNum 6.5), (''cameraModel'', JStr ''X100'')],
      ocr_text = Val ''EXIT'',
      frames_analyzed = Val 1,
      frames = Val
        [\<lparr>frame_id = 1, scene_scores = Val [(''Beach'', 0.7)],
          faces = Val
            [\<lparr>face_id = ''face-x'', attributes = [(''age'', JNum 41)], embedding = Val [0.1, 0.2],
               embedding_vector = Undefined,
               osint_matches = Val
                 [\<lparr>platform = ''Web'', profile_name = ''Jane Roe'', source_url = ''https://example.org/jr'',
                    similarity_score = 0.77\<rparr>]\<rparr>],
          scene_analysis = Undefined\<rparr>]\<rparr>"

definition example_file :: file_obj where
  "example_file = \<lparr>file_name = ''clip.mp4'', file_type = ''video/mp4'', file_bytes = [0, 0, 0, 24]\<rparr>"

text \<open>What \<^verbatim>\<open>toUpperCase\<close> gives on a string of ASCII characters, for the examples (whose
  keys are ASCII).\<close>

definition ascii_upper :: "string \<Rightarrow> string" where
  "ascii_upper s = map (\<lambda>c. if is_lower c then char_of (of_char c - (32::nat)) else c) s"

text \<open>A status answer that carries a status and nothing else.\<close>

definition bare_answer :: "string \<Rightarrow> status_data axios_result" where
  "bare_answer s =
     Resolved 200 (Val \<lparr>status = Val s, report = Undefined, failure = Undefined, other_fields = []\<rparr>)"

section \<open>Properties of the page\<close>

lemma polling_iff: "polling st \<longleftrightarrow> truthy_str (evidenceId st) \<and> \<not> client_terminal (analysisStatus st)"
  by (auto simp: polling_def client_terminal_def)

lemma fetchStatus_answer_evidenceId: "evidenceId (fetchStatus_answer res st) = evidenceId st"
  by (auto simp: fetchStatus_answer_def split: axios_result.splits js.splits)


text \<open>
  What the page does by design at a terminal status: while it holds one of
  \<^verbatim>\<open>ANALYSIS_COMPLETE\<close>, \<^verbatim>\<open>FAILED\<close> and \<^verbatim>\<open>ERROR\<close> the interval does not exist, so every status
  request is issued under another status; and a failed request leaves \<^verbatim>\<open>ERROR\<close> and no
  report.
\<close>

lemma no_tick_while_terminal:
  "client_terminal (analysisStatus (page c)) \<Longrightarrow> step c Tick = c \<and> polls c [Tick] = []"
  by (simp add: polling_iff)

lemma polls_nonterminal:
  "(i, s) \<in> set (polls c evs) \<Longrightarrow> truthy_str i \<and> \<not> client_terminal s"
proof (induction evs arbitrary: c)
  case Nil
  then show ?case by simp
next
  case (Cons ev evs)
  then show ?case
    by (auto simp: polling_iff split: if_splits)
qed

lemma polling_off_exactly:
  "truthy_str (evidenceId st) \<Longrightarrow>
   (\<not> polling st) = (analysisStatus st \<in> {Val ''ANALYSIS_COMPLETE'', Val ''FAILED'', Val ''ERROR''})"
  by (auto simp: polling_def)

lemma fetch_failure_sets_error:
  "analysisStatus (fetchStatus_answer Rejected st) = Val ''ERROR'' \<and>
   reportData (fetchStatus_answer Rejected st) = Null \<and>
   evidenceId (fetchStatus_answer Rejected st) = evidenceId st \<and>
   \<not> polling (fetchStatus_answer Rejected st)"
  by (simp add: fetchStatus_answer_def polling_def)



text \<open>
  C8: the code at the failing input. An upload is answered with the id \<open>ev-1\<close>; the interval
  fires twice before any answer; the second request is answered \<^verbatim>\<open>FAILED\<close>, which the page
  stores (polling is off); then the first request is answered \<^verbatim>\<open>PENDING\<close>, and at the next
  firing of the interval the page issues a status request for \<open>ev-1\<close> again.
\<close>

theorem late_answer_polls_again_after_failed:
  "analysisStatus (page (run initial_client
       [UploadSuccess (Val ''ev-1''), Tick, Tick, Answer (bare_answer ''FAILED'')])) = Val ''FAILED'' \<and>
   evidenceId (page (run initial_client
       [UploadSuccess (Val ''ev-1''), Tick, Tick, Answer (bare_answer ''FAILED'')])) = Val ''ev-1'' \<and>
   \<not> polling (page (run initial_client
       [UploadSuccess (Val ''ev-1''), Tick, Tick, Answer (bare_answer ''FAILED'')])) \<and>
   polls (run initial_client
       [UploadSuccess (Val ''ev-1''), Tick, Tick, Answer (bare_answer ''FAILED'')])
     [Answer (bare_answer ''PENDING''), Tick] = [(Val ''ev-1'', Val ''PENDING'')]"
  by (simp add: run_def initial_client_def initial_state_def handleUploadSuccess_def polling_def
      fetchStatus_issue_def fetchStatus_answer_def bare_answer_def)

text \<open>
  C10: the code at the failing input. As above, but the second request fails: the page
  stores \<^verbatim>\<open>ERROR\<close> and no report (polling is off); then the first request is answered
  \<^verbatim>\<open>PENDING\<close>, and at the next firing of the interval the page issues a status request for
  \<open>ev-1\<close> again.
\<close>

theorem late_answer_polls_again_after_error:
  "analysisStatus (page (run initial_client
       [UploadSuccess (Val ''ev-1''), Tick, Tick, Answer Rejected])) = Val ''ERROR'' \<and>
   reportData (page (run initial_client
       [UploadSuccess (Val ''ev-1''), Tick, Tick, Answer Rejected])) = Null \<and>
   \<not> polling (page (run initial_client
       [UploadSuccess (Val ''ev-1''), Tick, Tick, Answer Rejected])) \<and>
   polls (run initial_client
       [UploadSuccess (Val ''ev-1''), Tick, Tick, Answer Rejected])
     [Answer (bare_answer ''PENDING''), Tick] = [(Val ''ev-1'', Val ''PENDING'')]"
  by (simp add: run_def initial_client_def initial_state_def handleUploadSuccess_def polling_def
      fetchStatus_issue_def fetchStatus_answer_def bare_answer_def)

text \<open>
  C9. When a status request is answered with the status \<^verbatim>\<open>FAILED\<close>, in whatever state the
  page is in by then, a page with an evidence id shows the fixed text "Analysis Failed.
  Check server logs." and the waiting panel with the evidence id (a page without one shows
  the upload form), whatever else the response carries (a \<^verbatim>\<open>{stage, message}\<close> pair, a report,
  any other field): nothing of the response but its status reaches the screen. The same
  holds in every state that holds the status \<^verbatim>\<open>FAILED\<close>.
\<close>

theorem failed_view_is_fixed:
  assumes "status d = Val ''FAILED''"
  shows "(truthy_str (evidenceId st) \<longrightarrow>
            Home (fetchStatus_answer (Resolved code (Val d)) st) =
              StatusAndResults
                (Some \<lparr>ind_icon = FiXOctagon, ind_color = ''bg-error-red/10 text-error-red'',
                       ind_message = ''Analysis Failed. Check server logs.''\<rparr>)
                (WaitingPanel (evidenceId st))) \<and>
         (\<not> truthy_str (evidenceId st) \<longrightarrow>
            Home (fetchStatus_answer (Resolved code (Val d)) st) = UploadFormElem) \<and>
         (\<forall>s. truthy_str (evidenceId s) \<and> analysisStatus s = Val ''FAILED'' \<longrightarrow>
            Home s =
              StatusAndResults
                (Some \<lparr>ind_icon = FiXOctagon, ind_color = ''bg-error-red/10 text-error-red'',
                       ind_message = ''Analysis Failed. Check server logs.''\<rparr>)
                (WaitingPanel (evidenceId s)))"
  using assms by (simp add: Home_def StatusIndicator_def fetchStatus_answer_def)

theorem failed_view_is_fixed_witness:
  "status \<lparr>status = Val ''FAILED'', report = Undefined,
        failure = Val \<lparr>stage = ''metadata'', message = ''exiftool: Traceback (most recent call last)''\<rparr>,
        other_fields = [(''trace'', JStr ''ProviderError at worker.py:41'')]\<rparr> = Val ''FAILED'' \<and>
   truthy_str (evidenceId \<lparr>evidenceId = Val ''ev-1'', analysisStatus = Val ''PENDING'', reportData = Null,
      isLoadingStatus = True\<rparr>) \<and>
   Home (fetchStatus_answer
     (Resolved 200 (Val \<lparr>status = Val ''FAILED'', report = Undefined,
        failure = Val \<lparr>stage = ''metadata'', message = ''exiftool: Traceback (most recent call last)''\<rparr>,
        other_fields = [(''trace'', JStr ''ProviderError at worker.py:41'')]\<rparr>))
     \<lparr>evidenceId = Val ''ev-1'', analysisStatus = Val ''PENDING'', reportData = Null,
      isLoadingStatus = True\<rparr>) =
     StatusAndResults
       (Some \<lparr>ind_icon = FiXOctagon, ind_color = ''bg-error-red/10 text-error-red'',
              ind_message = ''Analysis Failed. Check server logs.''\<rparr>)
       (WaitingPanel (Val ''ev-1''))"
  using failed_view_is_fixed[of
      "\<lparr>status = Val ''FAILED'', report = Undefined,
        failure = Val \<lparr>stage = ''metadata'', message = ''exiftool: Traceback (most recent call last)''\<rparr>,
        other_fields = [(''trace'', JStr ''ProviderError at worker.py:41'')]\<rparr>"
      "\<lparr>evidenceId = Val ''ev-1'', analysisStatus = Val ''PENDING'', reportData = Null,
        isLoadingStatus = True\<rparr>" 200]
  by simp

section \<open>Properties of the job state machine\<close>

lemma never_regresses_refl: "never_regresses s s"
  by (simp add: never_regresses_def)

lemma never_regresses_trans:
  "never_regresses a b \<Longrightarrow> never_regresses b c \<Longrightarrow> never_regresses a c"
  by (cases a; cases b; cases c) (simp_all add: never_regresses_def terminal_def)

lemma next_status_rank: "next_status s = Some s' \<Longrightarrow> \<not> terminal s \<and> status_rank s < status_rank s'"
  by (cases s) (auto simp: terminal_def)

lemma compare_and_advance_other:
  "compare_and_advance reg eid' ex tr now = Inr (reg', r1) \<Longrightarrow> eid' \<noteq> eid \<Longrightarrow> reg' eid = reg eid"
  by (auto simp: compare_and_advance_def Let_def split: option.splits if_splits transition.splits)

lemma compare_and_advance_same:
  assumes "compare_and_advance reg eid ex tr now = Inr (reg', r1)" and "reg eid = Some r"
  shows "reg' eid = Some r1 \<and> jr_status r = ex \<and> \<not> terminal ex \<and>
         (jr_status r1 = FAILED \<or> status_rank ex < status_rank (jr_status r1))"
  using assms
  by (auto simp: compare_and_advance_def Let_def dest: next_status_rank
      split: option.splits if_splits transition.splits)

lemma apply_op_step:
  assumes "reg eid = Some r"
  shows "\<exists>r'. apply_op reg op eid = Some r' \<and> never_regresses (jr_status r) (jr_status r') \<and>
              (terminal (jr_status r) \<longrightarrow> r' = r)"
proof (cases op)
  case (Create eid' now)
  with assms show ?thesis
    by (cases "eid' = eid")
       (auto simp: apply_op_def create_def Let_def never_regresses_refl split: option.splits)
next
  case (Write eid' ex tr now)
  show ?thesis
  proof (cases "terminal ex")
    case True
    with Write assms show ?thesis by (simp add: apply_op_def never_regresses_refl)
  next
    case False
    show ?thesis
    proof (cases "compare_and_advance reg eid' ex tr now")
      case (Inl e)
      with Write False assms show ?thesis by (simp add: apply_op_def never_regresses_refl)
    next
      case (Inr p)
      obtain reg' r1 where p: "p = (reg', r1)" by (cases p)
      show ?thesis
      proof (cases "eid' = eid")
        case True
        from compare_and_advance_same[OF Inr[unfolded p True] assms]
        have "reg' eid = Some r1" "\<not> terminal (jr_status r)"
          "jr_status r1 = FAILED \<or> status_rank (jr_status r) < status_rank (jr_status r1)"
          by auto
        with Write False Inr p True show ?thesis
          by (auto simp: apply_op_def never_regresses_def)
      next
        case ne: False
        from compare_and_advance_other[OF Inr[unfolded p] ne] Write False Inr p assms
        show ?thesis by (simp add: apply_op_def never_regresses_refl)
      qed
    qed
  qed
qed

lemma apply_ops:
  "reg eid = Some r \<Longrightarrow>
   \<exists>r'. foldl apply_op reg ops eid = Some r' \<and> never_regresses (jr_status r) (jr_status r') \<and>
        (terminal (jr_status r) \<longrightarrow> r' = r)"
proof (induction ops arbitrary: reg r)
  case Nil
  then show ?case by (simp add: never_regresses_refl)
next
  case (Cons op ops)
  from apply_op_step[of reg eid r op] Cons.prems obtain r1 where
    r1: "apply_op reg op eid = Some r1" "never_regresses (jr_status r) (jr_status r1)"
      "terminal (jr_status r) \<longrightarrow> r1 = r" by blast
  from Cons.IH[of "apply_op reg op" r1] r1(1) obtain r2 where
    r2: "foldl apply_op (apply_op reg op) ops eid = Some r2"
      "never_regresses (jr_status r1) (jr_status r2)" "terminal (jr_status r1) \<longrightarrow> r2 = r1" by blast
  from r1 r2 show ?case
    by (auto intro: never_regresses_trans)
qed


text \<open>
  C1. Whatever calls the orchestrator and its units make on the registry (creations and
  compare-and-advance writes, with any evidence ids, expected statuses and mutations, in any
  order), a job's record stays in the registry and its status either is the one it was or
  has moved, from a non-terminal status, forward in the order or to \<open>FAILED\<close>. Once the
  status is terminal the record is never written again, so the status query answers the same
  whenever it is asked.
\<close>

theorem status_never_regresses:
  assumes "reg eid = Some r"
  shows "\<exists>r'. foldl apply_op reg ops eid = Some r' \<and>
           never_regresses (jr_status r) (jr_status r') \<and>
           (jr_status r' = jr_status r \<or>
            jr_status r \<noteq> ANALYSIS_COMPLETE \<and> jr_status r \<noteq> FAILED \<and>
            (jr_status r' = FAILED \<or> status_rank (jr_status r) < status_rank (jr_status r'))) \<and>
           (terminal (jr_status r) \<longrightarrow> r' = r \<and> status_query r' = status_query r)"
proof -
  from apply_ops[of reg eid r ops] assms obtain r' where
    "foldl apply_op reg ops eid = Some r'" "never_regresses (jr_status r) (jr_status r')"
    "terminal (jr_status r) \<longrightarrow> r' = r" by blast
  then show ?thesis
    by (auto simp: never_regresses_def terminal_def)
qed

theorem status_never_regresses_witness:
  "(Map.empty(''ev-1'' \<mapsto> \<lparr>jr_evidence_id = ''ev-1'', jr_status = PENDING, jr_stage_results = [],
        jr_frames = [], jr_error = None, jr_created_at = 0, jr_updated_at = 0\<rparr>)) ''ev-1''
     = Some \<lparr>jr_evidence_id = ''ev-1'', jr_status = PENDING, jr_stage_results = [],
        jr_frames = [], jr_error = None, jr_created_at = 0, jr_updated_at = 0\<rparr> \<and>
   foldl apply_op
     (Map.empty(''ev-1'' \<mapsto> \<lparr>jr_evidence_id = ''ev-1'', jr_status = PENDING, jr_stage_results = [],
        jr_frames = [], jr_error = None, jr_created_at = 0, jr_updated_at = 0\<rparr>))
     [Write ''ev-1'' PENDING (Forward (\<lambda>r. r)) 1,
      Write ''ev-1'' PENDING (Forward (\<lambda>r. r)) 2,
      Write ''ev-1'' METADATA_EXTRACTED (Fail \<lparr>stage = ''frames'', message = ''cannot decode''\<rparr>) 3,
      Write ''ev-1'' FAILED (Forward (\<lambda>r. r)) 4,
      Write ''ev-1'' METADATA_EXTRACTED (Forward (\<lambda>r. r)) 5,
      Create ''ev-1'' 6] ''ev-1''
     = Some \<lparr>jr_evidence_id = ''ev-1'', jr_status = FAILED, jr_stage_results = [],
        jr_frames = [], jr_error = Some \<lparr>stage = ''frames'', message = ''cannot decode''\<rparr>,
        jr_created_at = 0, jr_updated_at = 3\<rparr>"
  using status_never_regresses[of
      "Map.empty(''ev-1'' \<mapsto> \<lparr>jr_evidence_id = ''ev-1'', jr_status = PENDING, jr_stage_results = [],
        jr_frames = [], jr_error = None, jr_created_at = 0, jr_updated_at = 0\<rparr>)" "''ev-1''"
      "\<lparr>jr_evidence_id = ''ev-1'', jr_status = PENDING, jr_stage_results = [],
        jr_frames = [], jr_error = None, jr_created_at = 0, jr_updated_at = 0\<rparr>"]
  by (simp add: apply_op_def compare_and_advance_def create_def terminal_def Let_def)

lemma osint_retry_exhausted:
  "(\<forall>j<n. isl (provider emb (k + j))) \<Longrightarrow> osint_retry provider emb n k = None"
proof (induction n arbitrary: k)
  case 0
  then show ?case by simp
next
  case (Suc n)
  from Suc.prems have "isl (provider emb k)" by (metis add.right_neutral zero_less_Suc)
  moreover have "\<forall>j<n. isl (provider emb (Suc k + j))"
    using Suc.prems by (metis Suc_less_eq add_Suc_shift)
  ultimately show ?case using Suc.IH[of "Suc k"] by (auto split: sum.splits)
qed

lemma correlate_face_not_pending: "jf_osint_status (correlate_face provider n f) \<noteq> Osint_pending"
  by (simp add: correlate_face_def split: option.splits)

text \<open>
  C3. For a job in \<open>CONTENT_ANALYZED\<close> the OSINT stage always succeeds and leaves the job in
  \<open>ANALYSIS_COMPLETE\<close> (never in \<open>FAILED\<close>), with every face of every frame correlated and no
  face left pending; a face whose every attempt within the budget of \<open>n\<close> attempts fails is
  recorded with \<open>partial_failure\<close> and an empty match list.
\<close>

theorem osint_failure_is_partial:
  assumes "reg eid = Some r" and "jr_status r = CONTENT_ANALYZED"
  shows "\<exists>reg' r'. osint_stage reg eid provider n now = Inr (reg', r') \<and> reg' eid = Some r' \<and>
           jr_status r' = ANALYSIS_COMPLETE \<and>
           jr_frames r' = map (correlate_frame provider n) (jr_frames r) \<and>
           (\<forall>fr \<in> set (jr_frames r'). \<forall>f \<in> set (jfr_faces fr). jf_osint_status f \<noteq> Osint_pending) \<and>
           (\<forall>f. (\<forall>k<n. isl (provider (jf_embedding f) k)) \<longrightarrow>
              correlate_face provider n f =
                f\<lparr>jf_osint_matches := [], jf_osint_status := Osint_partial_failure\<rparr>)"
proof -
  have x: "\<forall>f. (\<forall>k<n. isl (provider (jf_embedding f) k)) \<longrightarrow>
      correlate_face provider n f = f\<lparr>jf_osint_matches := [], jf_osint_status := Osint_partial_failure\<rparr>"
    using osint_retry_exhausted[of n provider _ 0] by (simp add: correlate_face_def)
  have y: "\<forall>fr \<in> set (map (correlate_frame provider n) (jr_frames r)).
      \<forall>f \<in> set (jfr_faces fr). jf_osint_status f \<noteq> Osint_pending"
    by (auto simp: correlate_frame_def correlate_face_not_pending)
  from assms x y show ?thesis
    by (simp add: osint_stage_def compare_and_advance_def Let_def)
qed

theorem osint_failure_is_partial_witness:
  "(Map.empty(''ev-1'' \<mapsto> example_job)) ''ev-1'' = Some example_job \<and>
   jr_status example_job = CONTENT_ANALYZED \<and>
   (case osint_stage (Map.empty(''ev-1'' \<mapsto> example_job)) ''ev-1'' example_provider 3 5 of
      Inl e \<Rightarrow> None
    | Inr (reg', r') \<Rightarrow>
        Some (jr_status r',
              map (\<lambda>f. (jf_face_id f, jf_osint_status f, map profile_name (jf_osint_matches f)))
                (concat (map jfr_faces (jr_frames r')))))
     = Some (ANALYSIS_COMPLETE,
             [(''face-1'', Osint_partial_failure, []), (''face-2'', Osint_done, [''C''])])"
  using osint_failure_is_partial[of "Map.empty(''ev-1'' \<mapsto> example_job)" "''ev-1''" example_job
      example_provider 3 5]
  by (simp add: example_job_def example_provider_def osint_stage_def compare_and_advance_def
      correlate_frame_def correlate_face_def eval_nat_numeral Let_def)

section \<open>Properties of the status query and of the viewer\<close>







lemma map_snd_enumerate_comp: "map (f \<circ> snd) (enumerate n xs) = map f xs"
proof -
  have "map (f \<circ> snd) (enumerate n xs) = map f (map snd (enumerate n xs))"
    by (simp only: map_map)
  then show ?thesis by (simp only: map_snd_enumerate)
qed

lemma match_rows_scores: "map row_score (match_rows ms) = map similarity_score ms"
proof -
  have "map row_score (match_rows ms) = map (similarity_score \<circ> snd) (enumerate 0 ms)"
    by (simp add: match_rows_def case_prod_unfold comp_def)
  then show ?thesis by (simp only: map_snd_enumerate_comp)
qed

lemma card_scores_face_card_of: "card_scores (face_card_of i f) = face_scores f"
  by (cases "osint_matches f")
     (simp_all add: card_scores_def face_card_of_def face_scores_def match_rows_scores)

lemma IdentitySection_scores:
  "map card_scores (face_cards (IdentitySection (Val fs))) = map face_scores fs"
proof -
  have "map card_scores (face_cards (IdentitySection (Val fs)))
      = map (face_scores \<circ> snd) (enumerate 0 fs)"
    by (simp add: IdentitySection_def case_prod_unfold comp_def card_scores_face_card_of)
  then show ?thesis by (simp only: map_snd_enumerate_comp)
qed

lemma placeholder_card_scores:
  "map card_scores (face_cards (IdentitySection Null)) = [[0.92, 0.85], []]"
  by (simp add: IdentitySection_def placeholder_faces_def card_scores_def face_card_of_def
      match_rows_def enumerate_eq_zip upt_rec)

lemma ResultsViewer_cards:
  "shown_cards (rv_content (ResultsViewer up e r IdentityTab)) = face_cards (IdentitySection Null)"
  by (simp add: ResultsViewer_def mockFullReport_def)

lemma sorted_desc_sort_key:
  "sorted_desc (map similarity_score (sort_key (\<lambda>m. - similarity_score m) ms))"
proof -
  have "sorted (map (\<lambda>m. - similarity_score m) (sort_key (\<lambda>m. - similarity_score m) ms))"
    by (rule sorted_sort_key)
  then show ?thesis
    by (simp add: sorted_desc_def sorted_wrt_map)
qed

lemma project_face_sorted: "sorted_desc (face_scores (project_face f))"
  by (simp add: face_scores_def project_face_def sorted_desc_sort_key)

lemma report_faces_project:
  "report_faces (project_report rec) = map project_face (concat (map jfr_faces (jr_frames rec)))"
  by (simp add: report_faces_def project_report_def project_frame_def comp_def map_concat)

text \<open>
  C4. The matches that the viewer shows are sorted by descending score on every card,
  whatever its props and its tab. \<^verbatim>\<open>IdentitySection\<close> itself shows each face's matches in
  the order in which it is given them; the report projection gives every face its matches
  sorted by descending score, so the cards of a projected report's faces are sorted too.
\<close>

theorem matches_sorted_descending:
  "(\<forall>c \<in> set (shown_cards (rv_content (ResultsViewer up e rd tb))). sorted_desc (card_scores c)) \<and>
   map card_scores (face_cards (IdentitySection (Val fs))) = map face_scores fs \<and>
   (\<forall>f \<in> set (report_faces (project_report rec)). sorted_desc (face_scores f)) \<and>
   (\<forall>c \<in> set (face_cards (IdentitySection (Val (report_faces (project_report rec))))).
      sorted_desc (card_scores c))"
proof -
  have a: "\<forall>c \<in> set (shown_cards (rv_content (ResultsViewer up e rd tb))). sorted_desc (card_scores c)"
  proof (cases tb)
    case IdentityTab
    have "set (map card_scores (face_cards (IdentitySection Null))) = {[0.92, 0.85], []}"
      by (simp only: placeholder_card_scores) auto
    then have "\<forall>c \<in> set (face_cards (IdentitySection Null)). card_scores c \<in> {[0.92, 0.85], []}"
      by auto
    then have "\<forall>c \<in> set (face_cards (IdentitySection Null)). sorted_desc (card_scores c)"
      by (auto simp: sorted_desc_def)
    with IdentityTab show ?thesis by (simp only: ResultsViewer_cards)
  next
    case MetadataTab
    then show ?thesis by (simp add: ResultsViewer_def Let_def)
  next
    case SceneTab
    then show ?thesis by (simp add: ResultsViewer_def Let_def)
  qed
  have b: "\<forall>f \<in> set (report_faces (project_report rec)). sorted_desc (face_scores f)"
    by (auto simp: report_faces_project project_face_sorted)
  have "set (map card_scores (face_cards (IdentitySection (Val (report_faces (project_report rec))))))
      = set (map face_scores (report_faces (project_report rec)))"
    by (simp only: IdentitySection_scores)
  with b have c: "\<forall>c \<in> set (face_cards (IdentitySection (Val (report_faces (project_report rec))))).
      sorted_desc (card_scores c)"
    by (metis (no_types, lifting) image_iff list.set_map)
  from a b c IdentitySection_scores show ?thesis by blast
qed

theorem matches_sorted_descending_witness:
  "map (map similarity_score \<circ> jf_osint_matches) (concat (map jfr_faces (jr_frames example_job)))
     = [[0.85, 0.92], []] \<and>
   map face_scores (report_faces (project_report example_job)) = [[0.92, 0.85], []] \<and>
   map card_scores (face_cards (IdentitySection (Val (report_faces (project_report example_job)))))
     = [[0.92, 0.85], []] \<and>
   sorted_desc [0.92, 0.85]"
  using matches_sorted_descending[of ascii_upper "Val ''ev-1''" "Val (project_report example_job)" IdentityTab
      "report_faces (project_report example_job)" example_job]
  by (simp add: example_job_def report_faces_project project_face_def face_scores_def
      sorted_desc_def)

text \<open>
  The claim C6 as stated fails: for a report with one face \<open>face-x\<close> and the scene score of
  \<open>Beach\<close>, the viewer shows the two placeholder faces and the three placeholder scene
  scores.
\<close>

theorem viewer_shows_placeholders_counterexample:
  "map face_id (report_faces example_report) = [''face-x''] \<and>
   map card_key (shown_cards (rv_content (ResultsViewer ascii_upper (Val ''ev-1'') (Val example_report) IdentityTab)))
     = [''face-a'', ''face-b''] \<and>
   map card_scores (shown_cards (rv_content (ResultsViewer ascii_upper (Val ''ev-1'') (Val example_report) IdentityTab)))
     \<noteq> map face_scores (report_faces example_report) \<and>
   report_scene_scores example_report = [(''Beach'', 0.7)] \<and>
   shown_scene (rv_content (ResultsViewer ascii_upper (Val ''ev-1'') (Val example_report) SceneTab))
     = [(''Urban Street'', 0.85), (''Residential Area'', 0.10), (''Industrial Complex'', 0.05)]"
  by (simp add: example_report_def report_faces_def report_scene_scores_def ResultsViewer_def
      mockFullReport_def IdentitySection_def SceneSection_def placeholder_faces_def
      placeholder_scores_def face_card_of_def card_scores_def face_scores_def match_rows_def
      enumerate_eq_zip upt_rec)

lemma mockFullReport_fields:
  "metadata r = metadata r' \<Longrightarrow> ocr_text r = ocr_text r' \<Longrightarrow> frames_analyzed r = frames_analyzed r' \<Longrightarrow>
   mockFullReport e (Val r) = mockFullReport e (Val r')"
  by (simp add: mockFullReport_def)

lemma SceneSection_placeholder:
  "SceneSection (fr_frames (mockFullReport e rd)) x = placeholder_scores"
  by (simp add: SceneSection_def mockFullReport_def placeholder_scores_def)

lemma viewer_header:
  "rv_title_id (ResultsViewer up e rd tb) = e"
  "rv_frames_analyzed (ResultsViewer up e rd tb) = opt_chain rd frames_analyzed"
  "rv_active (ResultsViewer up e rd tb) = tb"
  by (simp_all add: ResultsViewer_def mockFullReport_def Let_def)

lemma viewer_metadata_tab:
  "rv_content (ResultsViewer up e (Val r) MetadataTab) =
     MetadataContent
       \<lparr>key_metadata = keyMetadata up (case metadata r of Val m \<Rightarrow> m | _ \<Rightarrow> []),
        ocr_shown = (case ocr_text r of Val t \<Rightarrow> (if t = [] then ''No text extracted.'' else t)
                     | _ \<Rightarrow> ''No text extracted.''),
        ocr_empty_note = ((case ocr_text r of Val t \<Rightarrow> (if t = [] then ''No text extracted.'' else t)
                     | _ \<Rightarrow> ''No text extracted.'') = ''No text extracted.''),
        full_dump = (case metadata r of Val m \<Rightarrow> m | _ \<Rightarrow> [])\<rparr>"
  by (simp add: ResultsViewer_def mockFullReport_def MetadataSection_def Let_def)

lemma viewer_identity_tab:
  "rv_content (ResultsViewer up e rd IdentityTab) = IdentityContent (IdentitySection Null)"
  by (simp add: ResultsViewer_def mockFullReport_def Let_def)

lemma viewer_identity_keys:
  "map card_key (shown_cards (rv_content (ResultsViewer up e rd IdentityTab))) = map face_id placeholder_faces"
  unfolding viewer_identity_tab
  by (simp add: IdentitySection_def placeholder_faces_def face_card_of_def enumerate_eq_zip upt_rec)

lemma placeholder_face_scores:
  "map card_scores (face_cards (IdentitySection Null)) = map face_scores placeholder_faces"
  by (simp only: placeholder_card_scores) (simp add: placeholder_faces_def face_scores_def)

lemma viewer_identity_scores:
  "map card_scores (shown_cards (rv_content (ResultsViewer up e rd IdentityTab))) = map face_scores placeholder_faces"
  unfolding viewer_identity_tab using placeholder_face_scores by simp

lemma viewer_scene_tab:
  "rv_content (ResultsViewer up e rd SceneTab) = SceneContent placeholder_scores"
  by (simp add: ResultsViewer_def Let_def SceneSection_placeholder)

lemma viewer_ignores_frames:
  fixes r r' :: report
  assumes "metadata r = metadata r' \<and> ocr_text r = ocr_text r' \<and> frames_analyzed r = frames_analyzed r'"
  shows "ResultsViewer up e (Val r) tb = ResultsViewer up e (Val r') tb"
proof -
  from assms have "mockFullReport e (Val r) = mockFullReport e (Val r')"
    by (intro mockFullReport_fields) simp_all
  then show ?thesis by (simp only: ResultsViewer_def)
qed

text \<open>
  C6 (as amended). For a complete job the viewer shows, of the report it is given, the count
  of analysed frames (in its header) and the metadata and the OCR text (on the metadata
  tab). The faces with their matches on the identity tab and the scene scores on the scene
  tab are the component's own placeholder values, whatever the report's frames hold: two
  reports that agree on metadata, OCR text and frame count are shown identically.
\<close>

theorem viewer_shows_summary_and_placeholders:
  "rv_title_id (ResultsViewer up e (Val r) tb) = e \<and>
   rv_frames_analyzed (ResultsViewer up e (Val r) tb) = frames_analyzed r \<and>
   rv_content (ResultsViewer up e (Val r) MetadataTab) =
     MetadataContent
       \<lparr>key_metadata = keyMetadata up (case metadata r of Val m \<Rightarrow> m | _ \<Rightarrow> []),
        ocr_shown = (case ocr_text r of Val t \<Rightarrow> (if t = [] then ''No text extracted.'' else t)
                     | _ \<Rightarrow> ''No text extracted.''),
        ocr_empty_note = ((case ocr_text r of Val t \<Rightarrow> (if t = [] then ''No text extracted.'' else t)
                     | _ \<Rightarrow> ''No text extracted.'') = ''No text extracted.''),
        full_dump = (case metadata r of Val m \<Rightarrow> m | _ \<Rightarrow> [])\<rparr> \<and>
   rv_content (ResultsViewer up e (Val r) IdentityTab) = IdentityContent (IdentitySection Null) \<and>
   map card_key (shown_cards (rv_content (ResultsViewer up e (Val r) IdentityTab)))
     = map face_id placeholder_faces \<and>
   map card_scores (shown_cards (rv_content (ResultsViewer up e (Val r) IdentityTab)))
     = map face_scores placeholder_faces \<and>
   rv_content (ResultsViewer up e (Val r) SceneTab) = SceneContent placeholder_scores \<and>
   (metadata r = metadata r' \<and> ocr_text r = ocr_text r' \<and> frames_analyzed r = frames_analyzed r' \<longrightarrow>
      ResultsViewer up e (Val r) tb = ResultsViewer up e (Val r') tb)"
proof -
  have h: "rv_frames_analyzed (ResultsViewer up e (Val r) tb) = frames_analyzed r"
    by (simp add: viewer_header)
  have d: "metadata r = metadata r' \<and> ocr_text r = ocr_text r' \<and> frames_analyzed r = frames_analyzed r' \<longrightarrow>
      ResultsViewer up e (Val r) tb = ResultsViewer up e (Val r') tb"
    using viewer_ignores_frames[of r r' up e tb] by blast
  show ?thesis
    by (intro conjI viewer_header(1) h viewer_metadata_tab viewer_identity_tab viewer_identity_keys
        viewer_identity_scores viewer_scene_tab d)
qed

theorem viewer_shows_summary_and_placeholders_witness:
  "metadata example_report = metadata (example_report\<lparr>frames := Val []\<rparr>) \<and>
   ocr_text example_report = ocr_text (example_report\<lparr>frames := Val []\<rparr>) \<and>
   frames_analyzed example_report = frames_analyzed (example_report\<lparr>frames := Val []\<rparr>) \<and>
   ResultsViewer ascii_upper (Val ''ev-1'') (Val example_report) IdentityTab
     = ResultsViewer ascii_upper (Val ''ev-1'') (Val (example_report\<lparr>frames := Val []\<rparr>)) IdentityTab \<and>
   rv_frames_analyzed (ResultsViewer ascii_upper (Val ''ev-1'') (Val example_report) IdentityTab) = Val 1 \<and>
   map card_key (shown_cards (rv_content (ResultsViewer ascii_upper (Val ''ev-1'') (Val example_report) IdentityTab)))
     = [''face-a'', ''face-b'']"
proof -
  have f: "frames_analyzed example_report = Val 1" by (simp add: example_report_def)
  have p: "map face_id placeholder_faces = [''face-a'', ''face-b'']"
    by (simp add: placeholder_faces_def)
  note t = viewer_shows_summary_and_placeholders[of ascii_upper "Val ''ev-1''" example_report IdentityTab
      "example_report\<lparr>frames := Val []\<rparr>"]
  from t have "metadata example_report = metadata (example_report\<lparr>frames := Val []\<rparr>) \<and>
      ocr_text example_report = ocr_text (example_report\<lparr>frames := Val []\<rparr>) \<and>
      frames_analyzed example_report = frames_analyzed (example_report\<lparr>frames := Val []\<rparr>) \<longrightarrow>
      ResultsViewer ascii_upper (Val ''ev-1'') (Val example_report) IdentityTab
        = ResultsViewer ascii_upper (Val ''ev-1'') (Val (example_report\<lparr>frames := Val []\<rparr>)) IdentityTab"
    by blast
  then have e: "ResultsViewer ascii_upper (Val ''ev-1'') (Val example_report) IdentityTab
        = ResultsViewer ascii_upper (Val ''ev-1'') (Val (example_report\<lparr>frames := Val []\<rparr>)) IdentityTab"
    by simp
  from t have "rv_frames_analyzed (ResultsViewer ascii_upper (Val ''ev-1'') (Val example_report) IdentityTab)
      = frames_analyzed example_report"
    and "map card_key (shown_cards (rv_content (ResultsViewer ascii_upper (Val ''ev-1'') (Val example_report) IdentityTab)))
      = map face_id placeholder_faces"
    by blast+
  with e f p show ?thesis by simp
qed

section \<open>Properties of the upload form\<close>

text \<open>
  The claim C7 as stated fails in its first clause: the request that \<^verbatim>\<open>handleUpload\<close> sends
  carries one form entry, the file under the name \<open>file\<close>, and no media kind.
\<close>

theorem upload_sends_file_only_counterexample:
  "sent (handleUpload \<lparr>uf_file = Val example_file, uf_isUploading = False,
           uf_message = ''File selected: clip.mp4'', uf_status = Val ''info''\<rparr>
         (PostResolved 202 \<lparr>evidence_id = Val ''ev-1'', api_message = Undefined\<rparr>))
     = Some \<lparr>req_path = ''/upload'', req_headers = [(''Content-Type'', ''multipart/form-data'')],
             req_form = [(''file'', FileValue example_file)]\<rparr> \<and>
   ''media_kind'' \<notin> fst ` set (req_form (upload_request example_file)) \<and>
   map fst (req_form (upload_request example_file)) = [''file'']"
  by (simp add: handleUpload_def upload_request_def)

lemma handleUpload_success_call:
  "(success_call (handleUpload st res) = Some i) =
     (\<exists>f d. uf_file st = Val f \<and> res = PostResolved 202 d \<and> evidence_id d = i)"
  by (cases "uf_file st"; cases res) (auto simp: handleUpload_def)

lemma handleUpload_sent:
  "sent (handleUpload st res) = (case uf_file st of Val f \<Rightarrow> Some (upload_request f) | _ \<Rightarrow> None)"
  by (cases "uf_file st"; cases res) (auto simp: handleUpload_def)

text \<open>
  C7 (as amended). A run of \<^verbatim>\<open>handleUpload\<close> sends a request exactly when a file is selected,
  and the request's form holds the file as its only entry. The page is handed an evidence
  id exactly when a file was selected and the response has the status code 202, and the id
  is the response's \<open>evidence_id\<close>; the page then records it with the status \<open>PENDING\<close> and no
  report, and polls if the id is a non-empty string. After any other run the page is as it
  was.
\<close>

theorem upload_records_evidence_id:
  "sent (handleUpload st res) = (case uf_file st of Val f \<Rightarrow> Some (upload_request f) | _ \<Rightarrow> None) \<and>
   req_form (upload_request f) = [(''file'', FileValue f)] \<and>
   (success_call (handleUpload st res) = Some i) =
     (\<exists>f d. uf_file st = Val f \<and> res = PostResolved 202 d \<and> evidence_id d = i) \<and>
   (uf_file st = Val f \<longrightarrow>
      evidenceId (page_after_upload (handleUpload st (PostResolved 202 d)) pg) = evidence_id d \<and>
      analysisStatus (page_after_upload (handleUpload st (PostResolved 202 d)) pg) = Val ''PENDING'' \<and>
      reportData (page_after_upload (handleUpload st (PostResolved 202 d)) pg) = Null \<and>
      polling (page_after_upload (handleUpload st (PostResolved 202 d)) pg) = truthy_str (evidence_id d)) \<and>
   (success_call (handleUpload st res) = None \<longrightarrow> page_after_upload (handleUpload st res) pg = pg)"
proof -
  have a: "uf_file st = Val f \<longrightarrow>
      evidenceId (page_after_upload (handleUpload st (PostResolved 202 d)) pg) = evidence_id d \<and>
      analysisStatus (page_after_upload (handleUpload st (PostResolved 202 d)) pg) = Val ''PENDING'' \<and>
      reportData (page_after_upload (handleUpload st (PostResolved 202 d)) pg) = Null \<and>
      polling (page_after_upload (handleUpload st (PostResolved 202 d)) pg) = truthy_str (evidence_id d)"
    by (simp add: handleUpload_def page_after_upload_def handleUploadSuccess_def polling_def)
  have b: "success_call (handleUpload st res) = None \<longrightarrow> page_after_upload (handleUpload st res) pg = pg"
    by (simp add: page_after_upload_def)
  have c: "req_form (upload_request f) = [(''file'', FileValue f)]"
    by (simp add: upload_request_def)
  show ?thesis
    by (intro conjI handleUpload_sent handleUpload_success_call a b c)
qed

theorem upload_records_evidence_id_witness:
  "uf_file \<lparr>uf_file = Val example_file, uf_isUploading = False,
       uf_message = ''File selected: clip.mp4'', uf_status = Val ''info''\<rparr> = Val example_file \<and>
   page_after_upload
     (handleUpload \<lparr>uf_file = Val example_file, uf_isUploading = False,
          uf_message = ''File selected: clip.mp4'', uf_status = Val ''info''\<rparr>
        (PostResolved 202 \<lparr>evidence_id = Val ''ev-1'', api_message = Undefined\<rparr>))
     initial_state
     = \<lparr>evidenceId = Val ''ev-1'', analysisStatus = Val ''PENDING'', reportData = Null,
        isLoadingStatus = False\<rparr> \<and>
   polling (page_after_upload
     (handleUpload \<lparr>uf_file = Val example_file, uf_isUploading = False,
          uf_message = ''File selected: clip.mp4'', uf_status = Val ''info''\<rparr>
        (PostResolved 202 \<lparr>evidence_id = Val ''ev-1'', api_message = Undefined\<rparr>))
     initial_state) \<and>
   success_call (handleUpload \<lparr>uf_file = Val example_file, uf_isUploading = False,
          uf_message = ''File selected: clip.mp4'', uf_status = Val ''info''\<rparr>
        (PostResolved 200 \<lparr>evidence_id = Val ''ev-1'', api_message = Undefined\<rparr>)) = None \<and>
   page_after_upload
     (handleUpload \<lparr>uf_file = Val example_file, uf_isUploading = False,
          uf_message = ''File selected: clip.mp4'', uf_status = Val ''info''\<rparr>
        (PostResolved 200 \<lparr>evidence_id = Val ''ev-1'', api_message = Undefined\<rparr>))
     initial_state = initial_state"
  using upload_records_evidence_id[of
      "\<lparr>uf_file = Val example_file, uf_isUploading = False,
          uf_message = ''File selected: clip.mp4'', uf_status = Val ''info''\<rparr>"
      "PostResolved 200 \<lparr>evidence_id = Val ''ev-1'', api_message = Undefined\<rparr>"
      example_file "Val ''ev-1''" "\<lparr>evidence_id = Val ''ev-1'', api_message = Undefined\<rparr>" initial_state]
  by (simp add: handleUpload_def page_after_upload_def handleUploadSuccess_def initial_state_def
      polling_def)

end
